theory Spec2Isabelle
  imports Main "HOL-Library.Word" "HOL-Library.Sublist"
begin

section \<open>JavaScript strings\<close>

text \<open>
  A JavaScript string is a sequence of UTF-16 code units. The regular expressions of
  \<^verbatim>\<open>index.ts\<close> have no \<^verbatim>\<open>u\<close> flag, so they match code unit by code unit, and
  \<^verbatim>\<open>String.prototype.trim\<close> only looks at code units of the basic plane. ASCII literals
  are written through \<open>js\<close>; the Japanese literals of the source are given by their code
  units.
\<close>

type_synonym jsstring = "16 word list"

definition js :: "string \<Rightarrow> jsstring" where
  "js s = map of_char s"

definition nl :: jsstring where
  "nl = [0x0A]"

definition dquote :: jsstring where
  "dquote = [0x22]"

text \<open>
  \<^verbatim>\<open>`${i + 1}`\<close>: the decimal digits of a non-negative integer (array indices stay far
  below the range where JavaScript switches to exponent notation).
\<close>

function numberToString :: "nat \<Rightarrow> jsstring" where
  "numberToString n =
     (if n < 10 then [0x30 + of_nat n]
      else numberToString (n div 10) @ [0x30 + of_nat (n mod 10)])"
  by pat_completeness auto
termination
  by (relation "measure (\<lambda>n. n)") auto

declare numberToString.simps [simp del]

text \<open>\<^verbatim>\<open>Array.prototype.join\<close> on an array of strings.\<close>

fun join :: "jsstring \<Rightarrow> jsstring list \<Rightarrow> jsstring" where
  "join sep [] = []"
| "join sep [x] = x"
| "join sep (x # y # ys) = x @ sep @ join sep (y # ys)"

text \<open>
  \<^verbatim>\<open>String.prototype.trim\<close> removes WhiteSpace and LineTerminator code points from both
  ends: TAB, LF, VT, FF, CR, SP, NBSP, U+1680, U+2000..U+200A, U+2028, U+2029, U+202F,
  U+205F, U+3000 and U+FEFF.
\<close>

definition isWhiteSpace :: "16 word \<Rightarrow> bool" where
  "isWhiteSpace c = (c \<in> set [0x09, 0x0A, 0x0B, 0x0C, 0x0D, 0x20, 0xA0, 0x1680,
       0x2000, 0x2001, 0x2002, 0x2003, 0x2004, 0x2005, 0x2006, 0x2007, 0x2008, 0x2009, 0x200A,
       0x2028, 0x2029, 0x202F, 0x205F, 0x3000, 0xFEFF])"

definition trim :: "jsstring \<Rightarrow> jsstring" where
  "trim s = rev (dropWhile isWhiteSpace (rev (dropWhile isWhiteSpace s)))"

section \<open>The regular expressions of stripMentions\<close>

text \<open>
  The three patterns use only literal characters, one optional literal (\<^verbatim>\<open>!?\<close>) and
  the greedy class repetition \<^verbatim>\<open>[0-9]+\<close>. \<open>matchHere p s\<close> is the backtracking matcher
  anchored at the start of \<open>s\<close>: it returns the text after the match, trying the greedy
  alternative first as the JavaScript engine does.
\<close>

datatype atom = Lit "16 word" | OptLit "16 word" | Digits1

definition isDigit :: "16 word \<Rightarrow> bool" where
  "isDigit c = (0x30 \<le> c \<and> c \<le> 0x39)"

fun matchHere :: "atom list \<Rightarrow> jsstring \<Rightarrow> jsstring option" where
  "matchHere [] s = Some s"
| "matchHere (Lit c # as) s =
     (case s of [] \<Rightarrow> None
      | x # xs \<Rightarrow> if x = c then matchHere as xs else None)"
| "matchHere (OptLit c # as) s =
     (case s of [] \<Rightarrow> matchHere as s
      | x # xs \<Rightarrow>
          if x = c then (case matchHere as xs of Some r \<Rightarrow> Some r | None \<Rightarrow> matchHere as s)
          else matchHere as s)"
| "matchHere (Digits1 # as) s =
     (case s of [] \<Rightarrow> None
      | x # xs \<Rightarrow>
          if isDigit x then
            (case matchHere (Digits1 # as) xs of Some r \<Rightarrow> Some r | None \<Rightarrow> matchHere as xs)
          else None)"

text \<open>
  \<^verbatim>\<open>txt.replace(/p/g, '')\<close>: scan from the left; a match is deleted and the scan goes
  on after it, an unmatched code unit is kept. (An empty match deletes nothing and the
  scan advances by one code unit.)
\<close>

function replaceG :: "atom list \<Rightarrow> jsstring \<Rightarrow> jsstring" where
  "replaceG p [] = []"
| "replaceG p (x # xs) =
     (case matchHere p (x # xs) of
        None \<Rightarrow> x # replaceG p xs
      | Some r \<Rightarrow> if length r < length (x # xs) then replaceG p r
                  else x # replaceG p xs)"
  by pat_completeness auto
termination
  by (relation "measure (\<lambda>(p, s). length s)") auto

text \<open>\<^verbatim>\<open>/<@!?[0-9]+>/\<close>, \<^verbatim>\<open>/<@&[0-9]+>/\<close> and \<^verbatim>\<open>/<#(?:[0-9]+)>/\<close>.\<close>

definition userMention :: "atom list" where
  "userMention = [Lit 0x3C, Lit 0x40, OptLit 0x21, Digits1, Lit 0x3E]"

definition roleMention :: "atom list" where
  "roleMention = [Lit 0x3C, Lit 0x40, Lit 0x26, Digits1, Lit 0x3E]"

definition channelMention :: "atom list" where
  "channelMention = [Lit 0x3C, Lit 0x23, Digits1, Lit 0x3E]"

definition stripMentions :: "jsstring \<Rightarrow> jsstring" where
  "stripMentions txt =
     trim (replaceG channelMention (replaceG roleMention (replaceG userMention txt)))"

text \<open>
  \<open>hasMatch p s\<close>: the pattern has a non-empty match somewhere in \<open>s\<close>; \<open>hasMention s\<close>:
  one of the three mention patterns has.
\<close>

fun hasMatch :: "atom list \<Rightarrow> jsstring \<Rightarrow> bool" where
  "hasMatch p [] = False"
| "hasMatch p (x # xs) =
     (case matchHere p (x # xs) of
        None \<Rightarrow> hasMatch p xs
      | Some r \<Rightarrow> length r < length (x # xs) \<or> hasMatch p xs)"

definition hasMention :: "jsstring \<Rightarrow> bool" where
  "hasMention s =
     (hasMatch userMention s \<or> hasMatch roleMention s \<or> hasMatch channelMention s)"

section \<open>Data model\<close>

text \<open>The \<^verbatim>\<open>Article\<close> interface; an optional or null description is \<open>None\<close>.\<close>

record article =
  title :: jsstring
  description :: "jsstring option"
  url :: jsstring
  publishedAt :: jsstring

text \<open>The parameter object handed to \<^verbatim>\<open>newsapi.v2.everything\<close> and what it resolves to.\<close>

record search_params =
  q :: jsstring
  sortBy :: jsstring
  pageSize :: int
  language :: "jsstring option"

record articles_result =
  articles :: "article list option"

text \<open>
  The request and the response of \<^verbatim>\<open>openai.chat.completions.create\<close>. The response is
  data from the network: it may come without \<^verbatim>\<open>choices\<close>, and a choice without
  \<^verbatim>\<open>message\<close>; a content that is present is a string.
\<close>

record chat_message =
  role :: jsstring
  content :: "jsstring option"

record chat_request =
  model :: jsstring
  messages :: "chat_message list"
  max_tokens :: int

record choice =
  message :: "chat_message option"

record chat_completion =
  choices :: "choice list option"

text \<open>A Discord message, and the two kinds of delivery target of \<^verbatim>\<open>composeAndSend\<close>.\<close>

record discord_message =
  author_bot :: bool
  author_tag :: jsstring
  channelId :: jsstring
  msg_content :: jsstring

datatype target = TextChannel jsstring | Message discord_message

datatype js_error = Rejected jsstring | TypeError

text \<open>Every effect of the program is an event of the trace.\<close>

datatype event =
    ConsoleLog jsstring
  | ConsoleError jsstring js_error
  | Everything search_params
  | ChatCreate chat_request
  | Send jsstring jsstring
  | Reply discord_message jsstring
  | SuppressEmbeds discord_message bool

text \<open>
  The collaborators: the three clients, the locale-dependent date formatting behind
  \<^verbatim>\<open>toJSTDate\<close>, and the environment variable of the target channel. A call either
  rejects (\<open>Inl\<close>) or resolves (\<open>Inr\<close>).
\<close>

record env =
  newsapi_everything :: "search_params \<Rightarrow> js_error + articles_result"
  openai_create :: "chat_request \<Rightarrow> js_error + chat_completion"
  channel_send :: "jsstring \<Rightarrow> jsstring \<Rightarrow> js_error + discord_message"
  message_reply :: "discord_message \<Rightarrow> jsstring \<Rightarrow> js_error + discord_message"
  message_suppressEmbeds :: "discord_message \<Rightarrow> bool \<Rightarrow> js_error + discord_message"
  toLocaleDateString :: "jsstring \<Rightarrow> jsstring"
  TARGET_CHANNEL_ID :: "jsstring option"

section \<open>Effects: a trace and an outcome\<close>

text \<open>
  An asynchronous function is run to completion: it yields the events it caused, in
  order, and either the exception it throws or its value.
\<close>

type_synonym 'a io = "event list \<times> (js_error + 'a)"

definition return_io :: "'a \<Rightarrow> 'a io" where
  "return_io x = ([], Inr x)"

definition throw_io :: "js_error \<Rightarrow> 'a io" where
  "throw_io e = ([], Inl e)"

definition bind_io :: "'a io \<Rightarrow> ('a \<Rightarrow> 'b io) \<Rightarrow> 'b io" where
  "bind_io m f =
     (case m of
        (t, Inl e) \<Rightarrow> (t, Inl e)
      | (t, Inr x) \<Rightarrow> (case f x of (t', r) \<Rightarrow> (t @ t', r)))"

definition try_catch :: "'a io \<Rightarrow> (js_error \<Rightarrow> 'a io) \<Rightarrow> 'a io" where
  "try_catch m h =
     (case m of
        (t, Inl e) \<Rightarrow> (case h e of (t', r) \<Rightarrow> (t @ t', r))
      | (t, Inr x) \<Rightarrow> (t, Inr x))"

definition call :: "event \<Rightarrow> js_error + 'a \<Rightarrow> 'a io" where
  "call ev r = ([ev], r)"

definition log :: "jsstring \<Rightarrow> unit io" where
  "log msg = ([ConsoleLog msg], Inr ())"

definition logError :: "jsstring \<Rightarrow> js_error \<Rightarrow> unit io" where
  "logError where' err = ([ConsoleError where' err], Inr ())"

definition toJSTDate :: "env \<Rightarrow> jsstring \<Rightarrow> jsstring" where
  "toJSTDate env isoDate = toLocaleDateString env isoDate"

section \<open>String constants of the source\<close>

text \<open>Left and right ordinal brackets U+3010 and U+3011.\<close>

definition lbracket :: jsstring where
  "lbracket = [0x3010]"

definition rbracket :: jsstring where
  "rbracket = [0x3011]"

text \<open>
  The instruction that opens the prompt (in Japanese: summarise the following articles in
  at most 200 characters, as bullet points), ending in two line feeds.
\<close>

definition promptInstruction :: jsstring where
  "promptInstruction =
     [0x6B21, 0x306E, 0x8907, 0x6570, 0x8A18, 0x4E8B, 0x3092, 0x65E5, 0x672C, 0x8A9E, 0x0020,
      0x0032, 0x0030, 0x0030, 0x0020, 0x5B57, 0x4EE5, 0x5185, 0x3067, 0x5206, 0x304B, 0x308A,
      0x3084, 0x3059, 0x304F, 0x8981, 0x7D04, 0x3057, 0x3001] @
     [0x7B87, 0x6761, 0x66F8, 0x304D, 0x3067, 0x30DD, 0x30A4, 0x30F3, 0x30C8, 0x3092, 0x6574,
      0x7406, 0x3057, 0x3066, 0x304F, 0x3060, 0x3055, 0x3044, 0x3002, 0x000A, 0x000A]"

text \<open>The fallback of \<^verbatim>\<open>summarize\<close>: a warning sign and "summarisation failed".\<close>

definition summaryFailed :: jsstring where
  "summaryFailed =
     [0x26A0, 0xFE0F, 0x0020, 0x8981, 0x7D04, 0x306B, 0x5931, 0x6557, 0x3057, 0x307E, 0x3057,
      0x305F]"

text \<open>The separator of \<^verbatim>\<open>makeArticleList\<close>: space, fullwidth vertical line, space.\<close>

definition dateUrlSeparator :: jsstring where
  "dateUrlSeparator = [0x0020, 0xFF5C, 0x0020]"

text \<open>The notice sent to a channel: "today's news was not found".\<close>

definition noticeDaily :: jsstring where
  "noticeDaily =
     [0x672C, 0x65E5, 0x306E, 0x30CB, 0x30E5, 0x30FC, 0x30B9, 0x306F, 0x898B, 0x3064, 0x304B,
      0x308A, 0x307E, 0x305B, 0x3093, 0x3067, 0x3057, 0x305F, 0x3002]"

text \<open>The notice sent as a reply: "related news was not found".\<close>

definition noticeRelated :: jsstring where
  "noticeRelated =
     [0x95A2, 0x9023, 0x30CB, 0x30E5, 0x30FC, 0x30B9, 0x304C, 0x898B, 0x3064, 0x304B, 0x308A,
      0x307E, 0x305B, 0x3093, 0x3067, 0x3057, 0x305F, 0x3002]"

text \<open>The header of the curated mode: newspaper emoji, "today's AI news digest".\<close>

definition headerCurated :: jsstring where
  "headerCurated =
     [0xD83D, 0xDCF0, 0x0020, 0x4ECA, 0x65E5, 0x306E, 0x0020, 0x0041, 0x0049, 0x0020, 0x30CB,
      0x30E5, 0x30FC, 0x30B9, 0x307E, 0x3068, 0x3081]"

text \<open>
  The two parts of the header around the theme: newspaper emoji and the opening
  markdown bold, then the closing bold and "latest news digest about".
\<close>

definition headerTopicPrefix :: jsstring where
  "headerTopicPrefix = [0xD83D, 0xDCF0, 0x0020, 0x002A, 0x002A]"

definition headerTopicSuffix :: jsstring where
  "headerTopicSuffix =
     [0x002A, 0x002A, 0x0020, 0x306B, 0x95A2, 0x3059, 0x308B, 0x6700, 0x65B0, 0x30CB, 0x30E5,
      0x30FC, 0x30B9, 0x307E, 0x3068, 0x3081]"

text \<open>The separator line: fourteen box-drawing dashes U+2500 and a line feed.\<close>

definition separatorLine :: jsstring where
  "separatorLine = replicate 14 0x2500 @ [0x0A]"

text \<open>\<^verbatim>\<open> AND (AI OR "artificial intelligence" OR GenerativeAI)\<close>, appended to the query.\<close>

definition aiQuerySuffix :: jsstring where
  "aiQuerySuffix =
     js '' AND (AI OR '' @ dquote @ js ''artificial intelligence'' @ dquote @
     js '' OR GenerativeAI)''"

section \<open>The pipeline\<close>

text \<open>
  \<^verbatim>\<open>summarize\<close>. \<open>promptBody\<close> is the local constant of that name and \<open>createParams\<close>
  the object passed to \<^verbatim>\<open>openai.chat.completions.create\<close>. Reading
  \<^verbatim>\<open>res.choices[0].message.content\<close> throws a TypeError inside the \<^verbatim>\<open>try\<close> block when
  \<^verbatim>\<open>choices\<close> is absent or empty, or when the first choice has no \<^verbatim>\<open>message\<close>.
\<close>

definition promptBody :: "article list \<Rightarrow> jsstring" where
  "promptBody as =
     join (nl @ nl)
       (map (\<lambda>(i, a). lbracket @ numberToString (i + 1) @ rbracket @ title a @ nl @
                       (case description a of None \<Rightarrow> [] | Some d \<Rightarrow> d))
            (enumerate 0 as))"

definition createParams :: "article list \<Rightarrow> chat_request" where
  "createParams as =
     \<lparr>model = js ''gpt-4o'',
      messages = [\<lparr>role = js ''user'', content = Some (promptInstruction @ promptBody as)\<rparr>],
      max_tokens = 400\<rparr>"

definition summarize :: "env \<Rightarrow> article list \<Rightarrow> jsstring io" where
  "summarize env as =
     try_catch
       (bind_io (call (ChatCreate (createParams as)) (openai_create env (createParams as)))
          (\<lambda>res. case choices res of
                    None \<Rightarrow> throw_io TypeError
                  | Some [] \<Rightarrow> throw_io TypeError
                  | Some (c # _) \<Rightarrow>
                      (case message c of
                         None \<Rightarrow> throw_io TypeError
                       | Some m \<Rightarrow>
                           return_io (case content m of None \<Rightarrow> [] | Some s \<Rightarrow> trim s))))
       (\<lambda>e. bind_io (logError (js ''summarize'') e) (\<lambda>_. return_io summaryFailed))"

definition makeArticleList :: "env \<Rightarrow> article list \<Rightarrow> jsstring" where
  "makeArticleList env as =
     join nl
       (map (\<lambda>(i, a). lbracket @ numberToString (i + 1) @ rbracket @
                       toJSTDate env (publishedAt a) @ dateUrlSeparator @ url a)
            (enumerate 0 as))"

text \<open>
  \<^verbatim>\<open>fetchNews\<close>; the option \<^verbatim>\<open>opts.aiFilter\<close> may be absent, which is falsy.
\<close>

definition fetchNews :: "env \<Rightarrow> jsstring \<Rightarrow> int \<Rightarrow> bool option \<Rightarrow> article list io" where
  "fetchNews env query pgSize aiFilter =
     try_catch
       (let qry = (if aiFilter = Some True then query @ aiQuerySuffix else query);
            params0 = \<lparr>q = qry, sortBy = js ''publishedAt'', pageSize = pgSize, language = None\<rparr>;
            params = (if aiFilter = Some True then params0\<lparr>language := Some (js ''en'')\<rparr>
                      else params0)
        in bind_io (log (js ''Fetching news: '' @ dquote @ qry @ dquote))
             (\<lambda>_. bind_io (call (Everything params) (newsapi_everything env params))
             (\<lambda>res. bind_io
                (log (js ''Fetched '' @
                      numberToString (case articles res of None \<Rightarrow> 0 | Some xs \<Rightarrow> length xs) @
                      js '' articles''))
             (\<lambda>_. return_io (case articles res of None \<Rightarrow> [] | Some xs \<Rightarrow> xs)))))
       (\<lambda>e. bind_io (logError (js ''fetchNews'') e) (\<lambda>_. return_io []))"

text \<open>\<^verbatim>\<open>composeAndSend\<close>; \<^verbatim>\<open>'send' in target\<close> holds of a text channel only.\<close>

definition composeAndSend :: "env \<Rightarrow> target \<Rightarrow> jsstring \<Rightarrow> bool \<Rightarrow> unit io" where
  "composeAndSend env tgt theme aiFilter =
     bind_io (fetchNews env theme 5 (Some aiFilter))
       (\<lambda>as.
          if length as = 0 then
            (case tgt of
               TextChannel ch \<Rightarrow>
                 bind_io (call (Send ch noticeDaily) (channel_send env ch noticeDaily))
                   (\<lambda>_. return_io ())
             | Message m \<Rightarrow>
                 bind_io (call (Reply m noticeRelated) (message_reply env m noticeRelated))
                   (\<lambda>_. return_io ()))
          else
            bind_io (summarize env as)
              (\<lambda>summary.
                 let listPart = makeArticleList env as;
                     header = (if aiFilter then headerCurated
                               else headerTopicPrefix @ theme @ headerTopicSuffix);
                     msgText = header @ nl @ summary @ nl @ separatorLine @ listPart
                 in case tgt of
                      TextChannel ch \<Rightarrow>
                        bind_io (call (Send ch msgText) (channel_send env ch msgText))
                          (\<lambda>sent. bind_io
                             (call (SuppressEmbeds sent True) (message_suppressEmbeds env sent True))
                             (\<lambda>_. return_io ()))
                    | Message m \<Rightarrow>
                        bind_io (call (Reply m msgText) (message_reply env m msgText))
                          (\<lambda>sent. bind_io
                             (call (SuppressEmbeds sent True) (message_suppressEmbeds env sent True))
                             (\<lambda>_. return_io ()))))"

text \<open>The handler of \<^verbatim>\<open>messageCreate\<close>; an empty theme is falsy.\<close>

definition onMessageCreate :: "env \<Rightarrow> discord_message \<Rightarrow> unit io" where
  "onMessageCreate env msg =
     (if author_bot msg then return_io ()
      else if Some (channelId msg) \<noteq> TARGET_CHANNEL_ID env then return_io ()
      else
        let theme = trim (stripMentions (msg_content msg))
        in if theme = [] then return_io ()
           else bind_io
                  (log (js ''Theme received: '' @ dquote @ theme @ dquote @ js '' from '' @
                        author_tag msg))
                  (\<lambda>_. composeAndSend env (Message msg) theme False))"

section \<open>Reading a trace\<close>

text \<open>
  The search requests, the completion requests and the deliveries (channel posts and
  replies) of a trace, in order.
\<close>

fun searches :: "event list \<Rightarrow> search_params list" where
  "searches [] = []"
| "searches (Everything p # t) = p # searches t"
| "searches (_ # t) = searches t"

fun llmCalls :: "event list \<Rightarrow> chat_request list" where
  "llmCalls [] = []"
| "llmCalls (ChatCreate r # t) = r # llmCalls t"
| "llmCalls (_ # t) = llmCalls t"

fun isDelivery :: "event \<Rightarrow> bool" where
  "isDelivery (Send _ _) = True"
| "isDelivery (Reply _ _) = True"
| "isDelivery _ = False"

definition deliveries :: "event list \<Rightarrow> event list" where
  "deliveries t = filter isDelivery t"

section \<open>Sample collaborators\<close>

text \<open>
  Concrete articles, messages and collaborators on which the theorems below are
  instantiated. \<open>sampleEnv news llm\<close> answers every search with \<open>news\<close> and every
  completion request with \<open>llm\<close>; deliveries succeed.
\<close>

definition article1 :: article where
  "article1 = \<lparr>title = js ''Alpha'', description = Some (js ''first''),
      url = js ''https://a.example/1'', publishedAt = js ''2024-05-01T03:00:00Z''\<rparr>"

definition article2 :: article where
  "article2 = \<lparr>title = js ''Beta'', description = None,
      url = js ''https://b.example/2'', publishedAt = js ''2024-04-30T23:00:00Z''\<rparr>"

definition botMessage :: discord_message where
  "botMessage = \<lparr>author_bot = True, author_tag = js ''bot#0001'', channelId = js ''42'',
      msg_content = js ''posted''\<rparr>"

definition userMessage :: discord_message where
  "userMessage = \<lparr>author_bot = False, author_tag = js ''user#1234'', channelId = js ''42'',
      msg_content = js ''<@7> quantum computing''\<rparr>"

definition sampleEnv :: "js_error + articles_result \<Rightarrow> js_error + chat_completion \<Rightarrow> env" where
  "sampleEnv news llm =
     \<lparr>newsapi_everything = (\<lambda>_. news),
      openai_create = (\<lambda>_. llm),
      channel_send = (\<lambda>_ _. Inr botMessage),
      message_reply = (\<lambda>_ _. Inr botMessage),
      message_suppressEmbeds = (\<lambda>m _. Inr m),
      toLocaleDateString = (\<lambda>_. js ''2024/05/01''),
      TARGET_CHANNEL_ID = Some (js ''42'')\<rparr>"

definition completion :: "jsstring option \<Rightarrow> chat_completion" where
  "completion c =
     \<lparr>choices = Some [\<lparr>message = Some \<lparr>role = js ''assistant'', content = c\<rparr>\<rparr>]\<rparr>"

section \<open>Mention stripping\<close>

lemma matchHere_length: "matchHere p s = Some r \<Longrightarrow> length r \<le> length s"
proof (induction p s arbitrary: r rule: matchHere.induct)
  case (1 s)
  then show ?case by simp
next
  case (2 c as s)
  then show ?case
    by (cases s) (auto split: if_splits intro: le_SucI)
next
  case (3 c as s)
  show ?case
  proof (cases s)
    case Nil
    with 3 show ?thesis by simp
  next
    case (Cons x xs)
    show ?thesis
    proof (cases "x = c")
      case True
      show ?thesis
      proof (cases "matchHere as xs")
        case None
        with 3 Cons True show ?thesis by simp
      next
        case (Some r')
        with "3.prems" Cons True have "r' = r" by simp
        with "3.IH"(2) [OF Cons True] Some Cons show ?thesis by (simp add: le_SucI)
      qed
    next
      case False
      with 3 Cons show ?thesis by simp
    qed
  qed
next
  case (4 as s)
  show ?case
  proof (cases s)
    case Nil
    with 4 show ?thesis by simp
  next
    case (Cons x xs)
    with "4.prems" have d: "isDigit x" by (simp split: if_splits)
    show ?thesis
    proof (cases "matchHere (Digits1 # as) xs")
      case None
      with "4.prems" Cons d have "matchHere as xs = Some r" by simp
      with "4.IH"(2) [OF Cons d None] Cons show ?thesis by (simp add: le_SucI)
    next
      case (Some r')
      with "4.prems" Cons d have "r' = r" by simp
      with "4.IH"(1) [OF Cons d] Some Cons show ?thesis by (simp add: le_SucI)
    qed
  qed
qed

lemma length_replaceG: "length (replaceG p s) \<le> length s"
  by (induction p s rule: replaceG.induct) (auto split: option.splits)

lemma replaceG_no_match: "\<not> hasMatch p s \<Longrightarrow> replaceG p s = s"
  by (induction p s rule: replaceG.induct) (auto split: option.splits)

lemma replaceG_shorter: "hasMatch p s \<Longrightarrow> length (replaceG p s) < length s"
proof (induction p s rule: replaceG.induct)
  case (1 p)
  then show ?case by simp
next
  case (2 p x xs)
  show ?case
  proof (cases "matchHere p (x # xs)")
    case None
    with 2 show ?thesis by auto
  next
    case (Some r)
    show ?thesis
    proof (cases "length r < length (x # xs)")
      case True
      have "length (replaceG p r) \<le> length r" by (rule length_replaceG)
      with True Some show ?thesis by simp
    next
      case False
      with 2 Some show ?thesis by auto
    qed
  qed
qed


lemma dropWhile_hd_id: "xs = [] \<or> \<not> P (hd xs) \<Longrightarrow> dropWhile P xs = xs"
  by (cases xs) auto

lemma trim_fixed:
  assumes "s = [] \<or> (\<not> isWhiteSpace (hd s) \<and> \<not> isWhiteSpace (last s))"
  shows "trim s = s"
proof (cases "s = []")
  case True
  then show ?thesis by (simp add: trim_def)
next
  case False
  with assms have h: "\<not> isWhiteSpace (hd s)" and l: "\<not> isWhiteSpace (last s)" by auto
  have 1: "dropWhile isWhiteSpace s = s" using h by (simp add: dropWhile_hd_id)
  have "hd (rev s) = last s" using False by (simp add: hd_rev)
  with l have 2: "dropWhile isWhiteSpace (rev s) = rev s" by (simp add: dropWhile_hd_id)
  show ?thesis by (simp add: trim_def 1 2)
qed

lemma trim_ends:
  "trim s = [] \<or> (\<not> isWhiteSpace (hd (trim s)) \<and> \<not> isWhiteSpace (last (trim s)))"
proof (cases "trim s = []")
  case True
  then show ?thesis by simp
next
  case False
  define u where "u = dropWhile isWhiteSpace s"
  define v where "v = dropWhile isWhiteSpace (rev u)"
  have t: "trim s = rev v" by (simp add: trim_def u_def v_def)
  with False have vne: "v \<noteq> []" by simp
  then have une: "u \<noteq> []" by (auto simp: v_def)
  have hv: "\<not> isWhiteSpace (hd v)" using vne unfolding v_def by (rule hd_dropWhile)
  have hu: "\<not> isWhiteSpace (hd u)" using une unfolding u_def by (rule hd_dropWhile)
  have "rev u = takeWhile isWhiteSpace (rev u) @ v" by (simp add: v_def)
  then have "last (rev u) = last v" using vne by (metis last_appendR)
  then have "last v = hd u" using une by (simp add: last_rev)
  with hu hv vne show ?thesis by (simp add: t hd_rev last_rev)
qed

lemma trim_trim: "trim (trim s) = trim s"
  using trim_ends [of s] by (rule trim_fixed)

lemma length_trim: "length (trim s) \<le> length s"
proof -
  have "length (trim s) \<le> length (dropWhile isWhiteSpace s)"
    by (simp add: trim_def length_dropWhile_le del: length_rev) (metis length_dropWhile_le length_rev)
  also have "\<dots> \<le> length s" by (rule length_dropWhile_le)
  finally show ?thesis .
qed

lemma stripMentions_trimmed: "trim (stripMentions s) = stripMentions s"
  by (simp add: stripMentions_def trim_trim)

lemma stripMentions_fixed: "\<not> hasMention t \<Longrightarrow> trim t = t \<Longrightarrow> stripMentions t = t"
  by (simp add: stripMentions_def hasMention_def replaceG_no_match)

lemma stripMentions_shorter:
  assumes "hasMention t"
  shows "length (stripMentions t) < length t"
proof -
  let ?a = "replaceG userMention t"
  let ?b = "replaceG roleMention ?a"
  let ?c = "replaceG channelMention ?b"
  have le: "length ?c \<le> length ?b" "length ?b \<le> length ?a" "length ?a \<le> length t"
    by (rule length_replaceG)+
  have "length ?c < length t"
  proof (cases "hasMatch userMention t")
    case True
    then have "length ?a < length t" by (rule replaceG_shorter)
    with le show ?thesis by linarith
  next
    case nu: False
    then have a: "?a = t" by (rule replaceG_no_match)
    show ?thesis
    proof (cases "hasMatch roleMention t")
      case True
      then have "length ?b < length t" unfolding a by (rule replaceG_shorter)
      with le show ?thesis by linarith
    next
      case nr: False
      then have b: "replaceG roleMention t = t" by (rule replaceG_no_match)
      from assms nu nr have "hasMatch channelMention t" by (simp add: hasMention_def)
      then have "length (replaceG channelMention t) < length t" by (rule replaceG_shorter)
      then show ?thesis by (simp only: a b)
    qed
  qed
  moreover have "length (stripMentions t) \<le> length ?c"
    unfolding stripMentions_def by (rule length_trim)
  ultimately show ?thesis by linarith
qed

text \<open>
  Claim C4 (as amended). Stripping the mentions of an already stripped string gives the
  same string exactly when the stripped string holds no mention markup; deleting a
  mention can join the text around it into a new one.
\<close>

theorem stripMentions_idempotent_iff:
  "stripMentions (stripMentions s) = stripMentions s \<longleftrightarrow> \<not> hasMention (stripMentions s)"
proof
  assume eq: "stripMentions (stripMentions s) = stripMentions s"
  show "\<not> hasMention (stripMentions s)"
  proof
    assume "hasMention (stripMentions s)"
    then have "length (stripMentions (stripMentions s)) < length (stripMentions s)"
      by (rule stripMentions_shorter)
    with eq show False by simp
  qed
next
  assume "\<not> hasMention (stripMentions s)"
  then show "stripMentions (stripMentions s) = stripMentions s"
    using stripMentions_trimmed by (rule stripMentions_fixed)
qed

theorem stripMentions_idempotent_iff_witness:
  "stripMentions (stripMentions (js ''hey <@!42> quantum'')) =
     stripMentions (js ''hey <@!42> quantum'') \<and>
   \<not> hasMention (stripMentions (js ''hey <@!42> quantum''))"
proof -
  have h: "\<not> hasMention (stripMentions (js ''hey <@!42> quantum''))" by code_simp
  with stripMentions_idempotent_iff [of "js ''hey <@!42> quantum''"] show ?thesis by blast
qed

text \<open>
  Claim C4 as stated fails: \<^verbatim>\<open><@<@1>1>\<close> is stripped to \<^verbatim>\<open><@1>\<close>, which is stripped
  to the empty string.
\<close>

theorem stripMentions_not_idempotent:
  "stripMentions (js ''<@<@1>1>'') = js ''<@1>'' \<and>
   stripMentions (stripMentions (js ''<@<@1>1>'')) = [] \<and>
   stripMentions (stripMentions (js ''<@<@1>1>'')) \<noteq> stripMentions (js ''<@<@1>1>'')"
  by code_simp

section \<open>The shape of the traces\<close>

lemma searches_append: "searches (t @ u) = searches t @ searches u"
  by (induction t rule: searches.induct) simp_all

lemma llmCalls_append: "llmCalls (t @ u) = llmCalls t @ llmCalls u"
  by (induction t rule: llmCalls.induct) simp_all

lemma deliveries_append: "deliveries (t @ u) = deliveries t @ deliveries u"
  by (simp add: deliveries_def)

lemma fetchNews_eq:
  "fetchNews env query n f =
     (let qry = (if f = Some True then query @ aiQuerySuffix else query);
          params = \<lparr>q = qry, sortBy = js ''publishedAt'', pageSize = n,
                    language = (if f = Some True then Some (js ''en'') else None)\<rparr>
      in case newsapi_everything env params of
           Inl e \<Rightarrow>
             ([ConsoleLog (js ''Fetching news: '' @ dquote @ qry @ dquote), Everything params,
               ConsoleError (js ''fetchNews'') e], Inr [])
         | Inr res \<Rightarrow>
             ([ConsoleLog (js ''Fetching news: '' @ dquote @ qry @ dquote), Everything params,
               ConsoleLog (js ''Fetched '' @
                 numberToString (case articles res of None \<Rightarrow> 0 | Some xs \<Rightarrow> length xs) @
                 js '' articles'')],
              Inr (case articles res of None \<Rightarrow> [] | Some xs \<Rightarrow> xs)))"
  by (simp add: fetchNews_def Let_def try_catch_def bind_io_def call_def log_def logError_def
      return_io_def split: sum.splits)

lemma fetchNews_returns: "\<exists>as. snd (fetchNews env query n f) = Inr as"
  by (simp add: fetchNews_eq Let_def split: sum.splits)

lemma fetchNews_searches:
  "searches (fst (fetchNews env query n f)) =
     [\<lparr>q = (if f = Some True then query @ aiQuerySuffix else query),
       sortBy = js ''publishedAt'', pageSize = n,
       language = (if f = Some True then Some (js ''en'') else None)\<rparr>]"
  by (simp add: fetchNews_eq Let_def split: sum.splits)

lemma fetchNews_llmCalls: "llmCalls (fst (fetchNews env query n f)) = []"
  by (simp add: fetchNews_eq Let_def split: sum.splits)

lemma fetchNews_deliveries: "deliveries (fst (fetchNews env query n f)) = []"
  by (simp add: fetchNews_eq Let_def deliveries_def split: sum.splits)

lemma summarize_eq:
  "summarize env as =
     (case openai_create env (createParams as) of
        Inl e \<Rightarrow> ([ChatCreate (createParams as), ConsoleError (js ''summarize'') e], Inr summaryFailed)
      | Inr res \<Rightarrow>
          (case choices res of
             None \<Rightarrow> ([ChatCreate (createParams as), ConsoleError (js ''summarize'') TypeError],
                      Inr summaryFailed)
           | Some [] \<Rightarrow> ([ChatCreate (createParams as), ConsoleError (js ''summarize'') TypeError],
                         Inr summaryFailed)
           | Some (c # _) \<Rightarrow>
               (case message c of
                  None \<Rightarrow> ([ChatCreate (createParams as),
                             ConsoleError (js ''summarize'') TypeError], Inr summaryFailed)
                | Some m \<Rightarrow> ([ChatCreate (createParams as)],
                             Inr (case content m of None \<Rightarrow> [] | Some s \<Rightarrow> trim s)))))"
  by (simp add: summarize_def try_catch_def bind_io_def call_def logError_def throw_io_def
      return_io_def split: sum.splits list.splits option.splits)

lemma summarize_returns: "\<exists>s. snd (summarize env as) = Inr s"
  by (simp add: summarize_eq split: sum.splits list.splits option.splits)

lemma summarize_llmCalls: "llmCalls (fst (summarize env as)) = [createParams as]"
  by (simp add: summarize_eq split: sum.splits list.splits option.splits)

lemma summarize_searches: "searches (fst (summarize env as)) = []"
  by (simp add: summarize_eq split: sum.splits list.splits option.splits)

lemma summarize_deliveries: "deliveries (fst (summarize env as)) = []"
  by (simp add: summarize_eq deliveries_def split: sum.splits list.splits option.splits)

lemma composeAndSend_empty:
  assumes "snd (fetchNews env theme 5 (Some aiFilter)) = Inr []"
  shows "fst (composeAndSend env tgt theme aiFilter) =
           fst (fetchNews env theme 5 (Some aiFilter)) @
           [case tgt of TextChannel ch \<Rightarrow> Send ch noticeDaily
            | Message m \<Rightarrow> Reply m noticeRelated]"
proof -
  obtain t where f: "fetchNews env theme 5 (Some aiFilter) = (t, Inr [])"
    using assms by (cases "fetchNews env theme 5 (Some aiFilter)") simp
  show ?thesis
    by (cases tgt)
       (simp_all add: composeAndSend_def f bind_io_def call_def return_io_def
          split: sum.splits prod.splits)
qed

lemma composeAndSend_nonempty:
  assumes "snd (fetchNews env theme 5 (Some aiFilter)) = Inr as" and "as \<noteq> []"
    and "snd (summarize env as) = Inr summary"
  shows "\<exists>rest. fst (composeAndSend env tgt theme aiFilter) =
           fst (fetchNews env theme 5 (Some aiFilter)) @ fst (summarize env as) @
           (case tgt of
              TextChannel ch \<Rightarrow>
                Send ch ((if aiFilter then headerCurated
                          else headerTopicPrefix @ theme @ headerTopicSuffix) @
                         nl @ summary @ nl @ separatorLine @ makeArticleList env as)
            | Message m \<Rightarrow>
                Reply m ((if aiFilter then headerCurated
                          else headerTopicPrefix @ theme @ headerTopicSuffix) @
                         nl @ summary @ nl @ separatorLine @ makeArticleList env as)) # rest
         \<and> deliveries rest = [] \<and> llmCalls rest = [] \<and> searches rest = []"
proof -
  obtain t where f: "fetchNews env theme 5 (Some aiFilter) = (t, Inr as)"
    using assms(1) by (cases "fetchNews env theme 5 (Some aiFilter)") simp
  obtain t2 where s: "summarize env as = (t2, Inr summary)"
    using assms(3) by (cases "summarize env as") simp
  show ?thesis using assms(2)
    by (cases tgt)
       (simp_all add: composeAndSend_def f s bind_io_def call_def return_io_def Let_def
          deliveries_def split: sum.splits prod.splits)
qed

lemma deliveries_empty_fetch:
  assumes "snd (fetchNews env theme 5 (Some aiFilter)) = Inr []"
  shows "deliveries (fst (composeAndSend env tgt theme aiFilter)) =
           [case tgt of TextChannel ch \<Rightarrow> Send ch noticeDaily
            | Message m \<Rightarrow> Reply m noticeRelated]"
proof -
  have "deliveries (fst (composeAndSend env tgt theme aiFilter)) =
          deliveries [case tgt of TextChannel ch \<Rightarrow> Send ch noticeDaily
           | Message m \<Rightarrow> Reply m noticeRelated]"
    by (simp only: composeAndSend_empty [OF assms] deliveries_append fetchNews_deliveries
        append_Nil)
  also have "\<dots> = [case tgt of TextChannel ch \<Rightarrow> Send ch noticeDaily
           | Message m \<Rightarrow> Reply m noticeRelated]"
    by (cases tgt) (simp_all add: deliveries_def)
  finally show ?thesis .
qed

lemma deliveries_nonempty_fetch:
  assumes "snd (fetchNews env theme 5 (Some aiFilter)) = Inr as" and "as \<noteq> []"
    and "snd (summarize env as) = Inr summary"
  shows "deliveries (fst (composeAndSend env tgt theme aiFilter)) =
           [case tgt of
              TextChannel ch \<Rightarrow>
                Send ch ((if aiFilter then headerCurated
                          else headerTopicPrefix @ theme @ headerTopicSuffix) @
                         nl @ summary @ nl @ separatorLine @ makeArticleList env as)
            | Message m \<Rightarrow>
                Reply m ((if aiFilter then headerCurated
                          else headerTopicPrefix @ theme @ headerTopicSuffix) @
                         nl @ summary @ nl @ separatorLine @ makeArticleList env as)]"
proof -
  from composeAndSend_nonempty [OF assms, of tgt] obtain rest where
    tr: "fst (composeAndSend env tgt theme aiFilter) =
           fst (fetchNews env theme 5 (Some aiFilter)) @ fst (summarize env as) @
           (case tgt of
              TextChannel ch \<Rightarrow>
                Send ch ((if aiFilter then headerCurated
                          else headerTopicPrefix @ theme @ headerTopicSuffix) @
                         nl @ summary @ nl @ separatorLine @ makeArticleList env as)
            | Message m \<Rightarrow>
                Reply m ((if aiFilter then headerCurated
                          else headerTopicPrefix @ theme @ headerTopicSuffix) @
                         nl @ summary @ nl @ separatorLine @ makeArticleList env as)) # rest"
    and rest: "deliveries rest = []" by blast
  have "deliveries (fst (composeAndSend env tgt theme aiFilter)) =
          deliveries ((case tgt of
              TextChannel ch \<Rightarrow>
                Send ch ((if aiFilter then headerCurated
                          else headerTopicPrefix @ theme @ headerTopicSuffix) @
                         nl @ summary @ nl @ separatorLine @ makeArticleList env as)
            | Message m \<Rightarrow>
                Reply m ((if aiFilter then headerCurated
                          else headerTopicPrefix @ theme @ headerTopicSuffix) @
                         nl @ summary @ nl @ separatorLine @ makeArticleList env as)) # rest)"
    by (simp only: tr deliveries_append fetchNews_deliveries summarize_deliveries append_Nil)
  also have "\<dots> = [case tgt of
              TextChannel ch \<Rightarrow>
                Send ch ((if aiFilter then headerCurated
                          else headerTopicPrefix @ theme @ headerTopicSuffix) @
                         nl @ summary @ nl @ separatorLine @ makeArticleList env as)
            | Message m \<Rightarrow>
                Reply m ((if aiFilter then headerCurated
                          else headerTopicPrefix @ theme @ headerTopicSuffix) @
                         nl @ summary @ nl @ separatorLine @ makeArticleList env as)]"
    using rest by (cases tgt) (simp_all add: deliveries_def)
  finally show ?thesis .
qed

lemma llmCalls_nonempty_fetch:
  assumes "snd (fetchNews env theme 5 (Some aiFilter)) = Inr as" and "as \<noteq> []"
  shows "llmCalls (fst (composeAndSend env tgt theme aiFilter)) = [createParams as]"
proof -
  obtain summary where s: "snd (summarize env as) = Inr summary"
    using summarize_returns by blast
  from composeAndSend_nonempty [OF assms s, of tgt] obtain ev rest where
    tr: "fst (composeAndSend env tgt theme aiFilter) =
           fst (fetchNews env theme 5 (Some aiFilter)) @ fst (summarize env as) @ ev # rest"
    and ev: "ev = (case tgt of
              TextChannel ch \<Rightarrow>
                Send ch ((if aiFilter then headerCurated
                          else headerTopicPrefix @ theme @ headerTopicSuffix) @
                         nl @ summary @ nl @ separatorLine @ makeArticleList env as)
            | Message m \<Rightarrow>
                Reply m ((if aiFilter then headerCurated
                          else headerTopicPrefix @ theme @ headerTopicSuffix) @
                         nl @ summary @ nl @ separatorLine @ makeArticleList env as))"
    and rest: "llmCalls rest = []" by blast
  have "llmCalls (ev # rest) = []" using rest ev by (cases tgt) simp_all
  then show ?thesis
    by (simp add: tr llmCalls_append fetchNews_llmCalls summarize_llmCalls)
qed

lemma join_sublist: "i < length xs \<Longrightarrow> sublist (xs ! i) (join sep xs)"
proof (induction sep xs arbitrary: i rule: join.induct)
  case (1 sep)
  then show ?case by simp
next
  case (2 sep x)
  then show ?case by simp
next
  case (3 sep x y ys)
  show ?case
  proof (cases i)
    case 0
    then show ?thesis by (simp add: sublist_append_rightI) 
  next
    case (Suc j)
    with 3 have "sublist ((y # ys) ! j) (join sep (y # ys))" by simp
    then obtain ps ss where "join sep (y # ys) = ps @ (y # ys) ! j @ ss"
      by (auto simp: sublist_def)
    then have "(x @ sep) @ join sep (y # ys) = ((x @ sep) @ ps) @ (y # ys) ! j @ ss"
      by simp
    then have "sublist ((y # ys) ! j) ((x @ sep) @ join sep (y # ys))"
      unfolding sublist_def by blast
    with Suc show ?thesis by simp
  qed
qed

lemma map_enumerate_upt:
  "map f (enumerate 0 xs) = map (\<lambda>i. f (i, xs ! i)) [0..<length xs]"
  by (rule nth_equalityI) (simp_all add: nth_enumerate_eq)

lemma searches_composeAndSend:
  "searches (fst (composeAndSend env tgt theme aiFilter)) =
     [\<lparr>q = (if aiFilter then theme @ aiQuerySuffix else theme),
       sortBy = js ''publishedAt'', pageSize = 5,
       language = (if aiFilter then Some (js ''en'') else None)\<rparr>]"
proof -
  obtain as where f: "snd (fetchNews env theme 5 (Some aiFilter)) = Inr as"
    using fetchNews_returns by blast
  have "searches (fst (composeAndSend env tgt theme aiFilter)) =
          searches (fst (fetchNews env theme 5 (Some aiFilter)))"
  proof (cases "as = []")
    case True
    with f have e: "snd (fetchNews env theme 5 (Some aiFilter)) = Inr []" by simp
    show ?thesis
      by (cases tgt) (simp_all add: composeAndSend_empty [OF e] searches_append)
  next
    case False
    obtain summary where s: "snd (summarize env as) = Inr summary"
      using summarize_returns by blast
    from composeAndSend_nonempty [OF f False s, of tgt] obtain ev rest where
      tr: "fst (composeAndSend env tgt theme aiFilter) =
           fst (fetchNews env theme 5 (Some aiFilter)) @ fst (summarize env as) @ ev # rest"
      and ev: "ev = (case tgt of
              TextChannel ch \<Rightarrow>
                Send ch ((if aiFilter then headerCurated
                          else headerTopicPrefix @ theme @ headerTopicSuffix) @
                         nl @ summary @ nl @ separatorLine @ makeArticleList env as)
            | Message m \<Rightarrow>
                Reply m ((if aiFilter then headerCurated
                          else headerTopicPrefix @ theme @ headerTopicSuffix) @
                         nl @ summary @ nl @ separatorLine @ makeArticleList env as))"
      and rest: "searches rest = []" by blast
    have "searches (ev # rest) = []" using rest ev by (cases tgt) simp_all
    then show ?thesis by (simp add: tr searches_append summarize_searches)
  qed
  then show ?thesis by (simp add: fetchNews_searches)
qed

lemma deliveries_reply:
  "\<exists>body. deliveries (fst (composeAndSend env (Message m) theme aiFilter)) = [Reply m body]"
proof -
  obtain as where f: "snd (fetchNews env theme 5 (Some aiFilter)) = Inr as"
    using fetchNews_returns by blast
  show ?thesis
  proof (cases "as = []")
    case True
    with f have e: "snd (fetchNews env theme 5 (Some aiFilter)) = Inr []" by simp
    show ?thesis by (simp add: deliveries_empty_fetch [OF e])
  next
    case False
    obtain summary where s: "snd (summarize env as) = Inr summary"
      using summarize_returns by blast
    show ?thesis by (simp add: deliveries_nonempty_fetch [OF f False s])
  qed
qed

section \<open>Fetching\<close>

text \<open>
  Claim C2. With the filter on, \<^verbatim>\<open>fetchNews\<close> issues one search whose query is the topic
  followed by the AI clause and whose language is English; with the filter off, one search
  whose query is the raw topic and which has no language. For the topic \<^verbatim>\<open>AI\<close> with the
  filter on, the query is \<^verbatim>\<open>AI AND (AI OR "artificial intelligence" OR GenerativeAI)\<close>.
\<close>

theorem fetchNews_query:
  "searches (fst (fetchNews env topic n (Some True))) =
     [\<lparr>q = topic @ js '' AND (AI OR '' @ dquote @ js ''artificial intelligence'' @ dquote @
             js '' OR GenerativeAI)'',
       sortBy = js ''publishedAt'', pageSize = n, language = Some (js ''en'')\<rparr>] \<and>
   searches (fst (fetchNews env topic n (Some False))) =
     [\<lparr>q = topic, sortBy = js ''publishedAt'', pageSize = n, language = None\<rparr>] \<and>
   map q (searches (fst (fetchNews env (js ''AI'') n (Some True)))) =
     [js ''AI AND (AI OR '' @ dquote @ js ''artificial intelligence'' @ dquote @
      js '' OR GenerativeAI)'']"
  by (simp add: fetchNews_searches aiQuerySuffix_def js_def)

text \<open>
  Claim C7. When the search call rejects, \<^verbatim>\<open>fetchNews\<close> resolves to the empty list: its
  outcome is a value, not an exception.
\<close>

theorem fetchNews_failure:
  assumes "newsapi_everything env
             \<lparr>q = (if f = Some True then query @ aiQuerySuffix else query),
              sortBy = js ''publishedAt'', pageSize = n,
              language = (if f = Some True then Some (js ''en'') else None)\<rparr> = Inl e"
  shows "snd (fetchNews env query n f) = Inr []"
  using assms by (simp add: fetchNews_eq Let_def)

theorem fetchNews_failure_witness:
  "newsapi_everything (sampleEnv (Inl (Rejected (js ''timeout''))) (Inr (completion None)))
     \<lparr>q = js ''AI'' @ aiQuerySuffix, sortBy = js ''publishedAt'', pageSize = 5,
      language = Some (js ''en'')\<rparr> = Inl (Rejected (js ''timeout'')) \<and>
   snd (fetchNews (sampleEnv (Inl (Rejected (js ''timeout''))) (Inr (completion None)))
     (js ''AI'') 5 (Some True)) = Inr []"
proof -
  have h: "newsapi_everything (sampleEnv (Inl (Rejected (js ''timeout''))) (Inr (completion None)))
     \<lparr>q = (if Some True = Some True then js ''AI'' @ aiQuerySuffix else js ''AI''),
      sortBy = js ''publishedAt'', pageSize = 5,
      language = (if Some True = Some True then Some (js ''en'') else None)\<rparr>
       = Inl (Rejected (js ''timeout''))"
    by (simp add: sampleEnv_def)
  from fetchNews_failure [OF h] h show ?thesis by simp
qed

section \<open>Summarizing\<close>

text \<open>
  Claim C10 (as amended). When the completion call resolves and the message of its first
  choice has no content, \<^verbatim>\<open>summarize\<close> returns the empty string, which is not the
  fallback. It returns the fallback exactly when something in the \<^verbatim>\<open>try\<close> block throws
  (the call rejects, or the response has no \<^verbatim>\<open>choices\<close>, an empty \<^verbatim>\<open>choices\<close> or a first
  choice without \<^verbatim>\<open>message\<close>, so that reading the content throws), or when the returned
  content trims to the fallback text itself.
\<close>

theorem summarize_fallback_cases:
  "(openai_create env (createParams as) = Inr res \<and> choices res = Some (c # cs) \<and>
      message c = Some m \<and> content m = None
    \<longrightarrow> snd (summarize env as) = Inr []) \<and>
   [] \<noteq> summaryFailed \<and>
   (snd (summarize env as) = Inr summaryFailed
    \<longleftrightarrow> (\<exists>e. openai_create env (createParams as) = Inl e) \<or>
        (\<exists>r. openai_create env (createParams as) = Inr r \<and>
           (choices r = None \<or> choices r = Some [] \<or>
            (\<exists>c' cs'. choices r = Some (c' # cs') \<and>
               (message c' = None \<or>
                (\<exists>m' s. message c' = Some m' \<and> content m' = Some s \<and>
                   trim s = summaryFailed))))))"
proof -
  have ne: "[] \<noteq> summaryFailed" by (simp add: summaryFailed_def)
  have null: "snd (summarize env as) = Inr []"
    if "openai_create env (createParams as) = Inr res" "choices res = Some (c # cs)"
       "message c = Some m" "content m = None"
    using that by (simp add: summarize_eq)
  have iff: "snd (summarize env as) = Inr summaryFailed
    \<longleftrightarrow> (\<exists>e. openai_create env (createParams as) = Inl e) \<or>
        (\<exists>r. openai_create env (createParams as) = Inr r \<and>
           (choices r = None \<or> choices r = Some [] \<or>
            (\<exists>c' cs'. choices r = Some (c' # cs') \<and>
               (message c' = None \<or>
                (\<exists>m' s. message c' = Some m' \<and> content m' = Some s \<and>
                   trim s = summaryFailed)))))"
  proof (cases "openai_create env (createParams as)")
    case (Inl e)
    then show ?thesis by (simp add: summarize_eq)
  next
    case (Inr r)
    show ?thesis
    proof (cases "choices r")
      case None
      with Inr show ?thesis by (simp add: summarize_eq)
    next
      case (Some xs)
      show ?thesis
      proof (cases xs)
        case Nil
        with Inr Some show ?thesis by (simp add: summarize_eq)
      next
        case (Cons c' cs')
        show ?thesis
        proof (cases "message c'")
          case None
          with Inr Some Cons show ?thesis by (simp add: summarize_eq)
        next
          case (Some m')
          with Inr \<open>choices r = Some xs\<close> Cons ne show ?thesis
            by (cases "content m'") (simp_all add: summarize_eq)
        qed
      qed
    qed
  qed
  from ne null iff show ?thesis by blast
qed

theorem summarize_fallback_cases_witness:
  "openai_create (sampleEnv (Inr \<lparr>articles = Some [article1]\<rparr>) (Inr (completion None)))
     (createParams [article1]) = Inr (completion None) \<and>
   snd (summarize (sampleEnv (Inr \<lparr>articles = Some [article1]\<rparr>) (Inr (completion None)))
     [article1]) = Inr [] \<and>
   snd (summarize (sampleEnv (Inr \<lparr>articles = Some [article1]\<rparr>) (Inl (Rejected (js ''500''))))
     [article1]) = Inr summaryFailed \<and>
   snd (summarize (sampleEnv (Inr \<lparr>articles = Some [article1]\<rparr>) (Inr (completion (Some (js ''ok'')))))
     [article1]) \<noteq> Inr summaryFailed"
proof -
  let ?E = "sampleEnv (Inr \<lparr>articles = Some [article1]\<rparr>) (Inr (completion None))"
  let ?F = "sampleEnv (Inr \<lparr>articles = Some [article1]\<rparr>) (Inl (Rejected (js ''500'')))"
  let ?G = "sampleEnv (Inr \<lparr>articles = Some [article1]\<rparr>) (Inr (completion (Some (js ''ok''))))"
  let ?m = "\<lparr>role = js ''assistant'', content = None\<rparr>"
  let ?c = "\<lparr>message = Some ?m\<rparr>"
  have h1: "openai_create ?E (createParams [article1]) = Inr (completion None)"
    by (simp add: sampleEnv_def)
  have h2: "choices (completion None) = Some (?c # [])" by (simp add: completion_def)
  have h3: "message ?c = Some ?m" by simp
  have h4: "content ?m = None" by simp
  have h5: "\<exists>e. openai_create ?F (createParams [article1]) = Inl e"
    by (simp add: sampleEnv_def)
  have g1: "\<not> (\<exists>e. openai_create ?G (createParams [article1]) = Inl e)"
    by (simp add: sampleEnv_def)
  have t: "trim (js ''ok'') \<noteq> summaryFailed" by code_simp
  have g3: "\<not> (\<exists>r. openai_create ?G (createParams [article1]) = Inr r \<and>
           (choices r = None \<or> choices r = Some [] \<or>
            (\<exists>c' cs'. choices r = Some (c' # cs') \<and>
               (message c' = None \<or>
                (\<exists>m' s. message c' = Some m' \<and> content m' = Some s \<and>
                   trim s = summaryFailed)))))"
    using t by (auto simp: sampleEnv_def completion_def)
  from summarize_fallback_cases [of ?E "[article1]" "completion None" ?c "[]" ?m] h1 h2 h3 h4
  have r1: "snd (summarize ?E [article1]) = Inr []" by blast
  from summarize_fallback_cases [of ?F "[article1]"] h5
  have r2: "snd (summarize ?F [article1]) = Inr summaryFailed" by blast
  from summarize_fallback_cases [of ?G "[article1]"] g1 g3
  have r3: "snd (summarize ?G [article1]) \<noteq> Inr summaryFailed" by blast
  from h1 r1 r2 r3 show ?thesis by blast
qed

text \<open>
  Claim C10 as stated fails: a call that resolves with an empty list of choices, or with a
  first choice that has no message, does not throw, and \<^verbatim>\<open>summarize\<close> returns the
  fallback.
\<close>

theorem summarize_fallback_without_throw:
  "openai_create (sampleEnv (Inr \<lparr>articles = Some [article1]\<rparr>) (Inr \<lparr>choices = Some []\<rparr>))
     (createParams [article1]) = Inr \<lparr>choices = Some []\<rparr> \<and>
   snd (summarize (sampleEnv (Inr \<lparr>articles = Some [article1]\<rparr>) (Inr \<lparr>choices = Some []\<rparr>))
     [article1]) = Inr summaryFailed \<and>
   openai_create
     (sampleEnv (Inr \<lparr>articles = Some [article1]\<rparr>) (Inr \<lparr>choices = Some [\<lparr>message = None\<rparr>]\<rparr>))
     (createParams [article1]) = Inr \<lparr>choices = Some [\<lparr>message = None\<rparr>]\<rparr> \<and>
   snd (summarize
     (sampleEnv (Inr \<lparr>articles = Some [article1]\<rparr>) (Inr \<lparr>choices = Some [\<lparr>message = None\<rparr>]\<rparr>))
     [article1]) = Inr summaryFailed"
  by (simp add: summarize_eq sampleEnv_def)

section \<open>The orchestrator\<close>

text \<open>
  Claim C1. When the fetch step yields the empty list, \<^verbatim>\<open>composeAndSend\<close> makes exactly
  one delivery, the not-found notice of its target, makes no completion request, and does
  nothing after the notice.
\<close>

theorem composeAndSend_empty_fetch:
  assumes "snd (fetchNews env theme 5 (Some aiFilter)) = Inr []"
  shows "deliveries (fst (composeAndSend env tgt theme aiFilter)) =
           [case tgt of TextChannel ch \<Rightarrow> Send ch noticeDaily
            | Message m \<Rightarrow> Reply m noticeRelated] \<and>
         llmCalls (fst (composeAndSend env tgt theme aiFilter)) = [] \<and>
         fst (composeAndSend env tgt theme aiFilter) =
           fst (fetchNews env theme 5 (Some aiFilter)) @
           [case tgt of TextChannel ch \<Rightarrow> Send ch noticeDaily
            | Message m \<Rightarrow> Reply m noticeRelated]"
proof -
  note tr = composeAndSend_empty [OF assms, of tgt]
  have "deliveries (fst (composeAndSend env tgt theme aiFilter)) =
          deliveries [case tgt of TextChannel ch \<Rightarrow> Send ch noticeDaily
           | Message m \<Rightarrow> Reply m noticeRelated]"
    by (simp only: tr deliveries_append fetchNews_deliveries append_Nil)
  also have "\<dots> = [case tgt of TextChannel ch \<Rightarrow> Send ch noticeDaily
           | Message m \<Rightarrow> Reply m noticeRelated]"
    by (cases tgt) (simp_all add: deliveries_def)
  finally have d: "deliveries (fst (composeAndSend env tgt theme aiFilter)) =
          [case tgt of TextChannel ch \<Rightarrow> Send ch noticeDaily
           | Message m \<Rightarrow> Reply m noticeRelated]" .
  have "llmCalls (fst (composeAndSend env tgt theme aiFilter)) =
          llmCalls [case tgt of TextChannel ch \<Rightarrow> Send ch noticeDaily
           | Message m \<Rightarrow> Reply m noticeRelated]"
    by (simp only: tr llmCalls_append fetchNews_llmCalls append_Nil)
  also have "\<dots> = []"
    by (cases tgt) simp_all
  finally have l: "llmCalls (fst (composeAndSend env tgt theme aiFilter)) = []" .
  from d l tr show ?thesis by simp
qed

theorem composeAndSend_empty_fetch_witness:
  "snd (fetchNews (sampleEnv (Inr \<lparr>articles = Some []\<rparr>) (Inr (completion None)))
         (js ''quantum computing'') 5 (Some False)) = Inr [] \<and>
   deliveries (fst (composeAndSend (sampleEnv (Inr \<lparr>articles = Some []\<rparr>) (Inr (completion None)))
         (Message userMessage) (js ''quantum computing'') False)) = [Reply userMessage noticeRelated] \<and>
   llmCalls (fst (composeAndSend (sampleEnv (Inr \<lparr>articles = Some []\<rparr>) (Inr (completion None)))
         (Message userMessage) (js ''quantum computing'') False)) = []"
proof -
  have h: "snd (fetchNews (sampleEnv (Inr \<lparr>articles = Some []\<rparr>) (Inr (completion None)))
         (js ''quantum computing'') 5 (Some False)) = Inr []"
    by (simp add: fetchNews_eq sampleEnv_def Let_def)
  from composeAndSend_empty_fetch [OF h, of "Message userMessage", unfolded target.case] h
  show ?thesis by blast
qed

text \<open>
  Claim C9. On an empty fetch result the notice depends on the target alone: a text channel
  is sent the daily notice and a message is answered with the related-news notice, whatever
  the filter flag; the two notices differ.
\<close>

theorem notice_by_target_only:
  assumes "snd (fetchNews env theme 5 (Some True)) = Inr []"
    and "snd (fetchNews env theme 5 (Some False)) = Inr []"
  shows "deliveries (fst (composeAndSend env tgt theme True)) =
           deliveries (fst (composeAndSend env tgt theme False)) \<and>
         deliveries (fst (composeAndSend env (TextChannel ch) theme True)) = [Send ch noticeDaily] \<and>
         deliveries (fst (composeAndSend env (TextChannel ch) theme False)) = [Send ch noticeDaily] \<and>
         deliveries (fst (composeAndSend env (Message m) theme True)) = [Reply m noticeRelated] \<and>
         deliveries (fst (composeAndSend env (Message m) theme False)) = [Reply m noticeRelated] \<and>
         noticeDaily \<noteq> noticeRelated"
proof -
  have "noticeDaily \<noteq> noticeRelated" by (simp add: noticeDaily_def noticeRelated_def)
  then show ?thesis
    by (simp add: deliveries_empty_fetch [OF assms(1)] deliveries_empty_fetch [OF assms(2)])
qed

theorem notice_by_target_only_witness:
  "snd (fetchNews (sampleEnv (Inr \<lparr>articles = None\<rparr>) (Inr (completion None)))
        (js ''AI'') 5 (Some True)) = Inr [] \<and>
   snd (fetchNews (sampleEnv (Inr \<lparr>articles = None\<rparr>) (Inr (completion None)))
        (js ''AI'') 5 (Some False)) = Inr [] \<and>
   deliveries (fst (composeAndSend (sampleEnv (Inr \<lparr>articles = None\<rparr>) (Inr (completion None)))
        (TextChannel (js ''42'')) (js ''AI'') False)) = [Send (js ''42'') noticeDaily] \<and>
   deliveries (fst (composeAndSend (sampleEnv (Inr \<lparr>articles = None\<rparr>) (Inr (completion None)))
        (Message userMessage) (js ''AI'') True)) = [Reply userMessage noticeRelated]"
proof -
  let ?E = "sampleEnv (Inr \<lparr>articles = None\<rparr>) (Inr (completion None))"
  have h1: "snd (fetchNews ?E (js ''AI'') 5 (Some True)) = Inr []"
    by (simp add: fetchNews_eq sampleEnv_def Let_def)
  have h2: "snd (fetchNews ?E (js ''AI'') 5 (Some False)) = Inr []"
    by (simp add: fetchNews_eq sampleEnv_def Let_def)
  from notice_by_target_only [OF h1 h2, of _ "js ''42''" userMessage] h1 h2
  show ?thesis by blast
qed

text \<open>
  Claim C3. For a non-empty article list, when the completion call rejects,
  \<^verbatim>\<open>summarize\<close> returns the fallback string, and \<^verbatim>\<open>composeAndSend\<close> still makes its one
  delivery: the header, the fallback, the separator line and the rendered article list,
  which has one entry per article (ordinal marker, localized date, URL), in input order.
\<close>

theorem summarize_failure_still_delivers:
  assumes "snd (fetchNews env theme 5 (Some aiFilter)) = Inr as" and "as \<noteq> []"
    and "openai_create env (createParams as) = Inl e"
  shows "snd (summarize env as) = Inr summaryFailed \<and>
         deliveries (fst (composeAndSend env tgt theme aiFilter)) =
           [case tgt of
              TextChannel ch \<Rightarrow>
                Send ch ((if aiFilter then headerCurated
                          else headerTopicPrefix @ theme @ headerTopicSuffix) @
                         nl @ summaryFailed @ nl @ separatorLine @ makeArticleList env as)
            | Message m \<Rightarrow>
                Reply m ((if aiFilter then headerCurated
                          else headerTopicPrefix @ theme @ headerTopicSuffix) @
                         nl @ summaryFailed @ nl @ separatorLine @ makeArticleList env as)] \<and>
         makeArticleList env as =
           join nl (map (\<lambda>i. lbracket @ numberToString (i + 1) @ rbracket @
                              toLocaleDateString env (publishedAt (as ! i)) @
                              dateUrlSeparator @ url (as ! i))
                        [0..<length as]) \<and>
         length (map (\<lambda>i. lbracket @ numberToString (i + 1) @ rbracket @
                              toLocaleDateString env (publishedAt (as ! i)) @
                              dateUrlSeparator @ url (as ! i))
                        [0..<length as]) = length as"
proof -
  have s: "snd (summarize env as) = Inr summaryFailed"
    using assms(3) by (simp add: summarize_eq)
  have l: "makeArticleList env as =
           join nl (map (\<lambda>i. lbracket @ numberToString (i + 1) @ rbracket @
                              toLocaleDateString env (publishedAt (as ! i)) @
                              dateUrlSeparator @ url (as ! i))
                        [0..<length as])"
    by (simp add: makeArticleList_def map_enumerate_upt toJSTDate_def)
  have n: "length (map (\<lambda>i. lbracket @ numberToString (i + 1) @ rbracket @
                              toLocaleDateString env (publishedAt (as ! i)) @
                              dateUrlSeparator @ url (as ! i))
                        [0..<length as]) = length as"
    by simp
  from s deliveries_nonempty_fetch [OF assms(1,2) s] l n show ?thesis by blast
qed

theorem summarize_failure_still_delivers_witness:
  "snd (fetchNews (sampleEnv (Inr \<lparr>articles = Some [article1, article2]\<rparr>) (Inl (Rejected (js ''429''))))
        (js ''AI'') 5 (Some True)) = Inr [article1, article2] \<and>
   [article1, article2] \<noteq> [] \<and>
   openai_create (sampleEnv (Inr \<lparr>articles = Some [article1, article2]\<rparr>) (Inl (Rejected (js ''429''))))
        (createParams [article1, article2]) = Inl (Rejected (js ''429'')) \<and>
   snd (summarize (sampleEnv (Inr \<lparr>articles = Some [article1, article2]\<rparr>) (Inl (Rejected (js ''429''))))
        [article1, article2]) = Inr summaryFailed \<and>
   deliveries (fst (composeAndSend
        (sampleEnv (Inr \<lparr>articles = Some [article1, article2]\<rparr>) (Inl (Rejected (js ''429''))))
        (TextChannel (js ''42'')) (js ''AI'') True)) =
     [Send (js ''42'')
        (headerCurated @ nl @ summaryFailed @ nl @ separatorLine @
         lbracket @ js ''1'' @ rbracket @ js ''2024/05/01'' @ dateUrlSeparator @
           js ''https://a.example/1'' @ nl @
         lbracket @ js ''2'' @ rbracket @ js ''2024/05/01'' @ dateUrlSeparator @
           js ''https://b.example/2'')]"
proof -
  let ?E = "sampleEnv (Inr \<lparr>articles = Some [article1, article2]\<rparr>) (Inl (Rejected (js ''429'')))"
  have h1: "snd (fetchNews ?E (js ''AI'') 5 (Some True)) = Inr [article1, article2]"
    by (simp add: fetchNews_eq sampleEnv_def Let_def)
  have h2: "[article1, article2] \<noteq> []" by simp
  have h3: "openai_create ?E (createParams [article1, article2]) = Inl (Rejected (js ''429''))"
    by (simp add: sampleEnv_def)
  have n1: "numberToString (Suc 0) = js ''1''"
    by (subst numberToString.simps) (simp add: js_def)
  have n2: "numberToString (Suc (Suc 0)) = js ''2''"
    by (subst numberToString.simps) (simp add: js_def)
  have l: "[0..<Suc (Suc 0)] = [0, Suc 0]" by (simp add: upt_rec)
  note r = summarize_failure_still_delivers
    [OF h1 h2 h3, of "TextChannel (js ''42'')", unfolded target.case]
  from r have "makeArticleList ?E [article1, article2] =
         lbracket @ js ''1'' @ rbracket @ js ''2024/05/01'' @ dateUrlSeparator @
           js ''https://a.example/1'' @ nl @
         lbracket @ js ''2'' @ rbracket @ js ''2024/05/01'' @ dateUrlSeparator @
           js ''https://b.example/2''"
    by (simp add: l n1 n2 sampleEnv_def article1_def article2_def)
  with r h1 h2 h3 show ?thesis by simp
qed

text \<open>
  Claim C5. For a non-empty article list, a run of \<^verbatim>\<open>composeAndSend\<close> makes exactly one
  completion request; its single message is the instruction followed by the prompt body,
  and for every article the prompt holds the ordinal marker, the title, a line feed and the
  description (nothing when the description is absent), in this order.
\<close>

theorem summarizer_called_once:
  assumes "snd (fetchNews env theme 5 (Some aiFilter)) = Inr as" and "as \<noteq> []"
  shows "llmCalls (fst (composeAndSend env tgt theme aiFilter)) = [createParams as] \<and>
         map content (messages (createParams as)) = [Some (promptInstruction @ promptBody as)] \<and>
         (\<forall>i<length as.
            sublist (lbracket @ numberToString (i + 1) @ rbracket @ title (as ! i) @ nl @
                     (case description (as ! i) of None \<Rightarrow> [] | Some d \<Rightarrow> d))
                    (promptInstruction @ promptBody as))"
proof -
  let ?block = "\<lambda>(i, a). lbracket @ numberToString (i + 1) @ rbracket @ title a @ nl @
                   (case description a of None \<Rightarrow> [] | Some d \<Rightarrow> d)"
  have "sublist (lbracket @ numberToString (i + 1) @ rbracket @ title (as ! i) @ nl @
                     (case description (as ! i) of None \<Rightarrow> [] | Some d \<Rightarrow> d))
                    (promptInstruction @ promptBody as)" if i: "i < length as" for i
  proof -
    have "sublist (map ?block (enumerate 0 as) ! i) (join (nl @ nl) (map ?block (enumerate 0 as)))"
    proof (rule join_sublist)
      show "i < length (map ?block (enumerate 0 as))" using i by simp
    qed
    then have "sublist (?block (i, as ! i)) (promptBody as)"
      using i by (simp add: promptBody_def nth_enumerate_eq)
    then obtain ps ss where "promptBody as = ps @ ?block (i, as ! i) @ ss"
      by (auto simp: sublist_def)
    then have "promptInstruction @ promptBody as = (promptInstruction @ ps) @ ?block (i, as ! i) @ ss"
      by simp
    then have "sublist (?block (i, as ! i)) (promptInstruction @ promptBody as)"
      unfolding sublist_def by blast
    then show ?thesis by simp
  qed
  moreover have "map content (messages (createParams as)) = [Some (promptInstruction @ promptBody as)]"
    by (simp add: createParams_def)
  ultimately show ?thesis using llmCalls_nonempty_fetch [OF assms, of tgt] by blast
qed

theorem summarizer_called_once_witness:
  "snd (fetchNews (sampleEnv (Inr \<lparr>articles = Some [article1, article2]\<rparr>) (Inr (completion (Some (js ''ok'')))))
        (js ''AI'') 5 (Some True)) = Inr [article1, article2] \<and>
   [article1, article2] \<noteq> [] \<and>
   llmCalls (fst (composeAndSend
        (sampleEnv (Inr \<lparr>articles = Some [article1, article2]\<rparr>) (Inr (completion (Some (js ''ok'')))))
        (TextChannel (js ''42'')) (js ''AI'') True)) = [createParams [article1, article2]] \<and>
   sublist (lbracket @ js ''2'' @ rbracket @ js ''Beta'' @ nl)
           (promptInstruction @ promptBody [article1, article2])"
proof -
  let ?E = "sampleEnv (Inr \<lparr>articles = Some [article1, article2]\<rparr>) (Inr (completion (Some (js ''ok''))))"
  have h1: "snd (fetchNews ?E (js ''AI'') 5 (Some True)) = Inr [article1, article2]"
    by (simp add: fetchNews_eq sampleEnv_def Let_def)
  have h2: "[article1, article2] \<noteq> []" by simp
  note r = summarizer_called_once [OF h1 h2, of "TextChannel (js ''42'')"]
  have n: "numberToString (Suc (Suc 0)) = js ''2''"
    by (subst numberToString.simps) (simp add: js_def)
  from r have "\<forall>i<length [article1, article2].
            sublist (lbracket @ numberToString (i + 1) @ rbracket @
                     title ([article1, article2] ! i) @ nl @
                     (case description ([article1, article2] ! i) of None \<Rightarrow> [] | Some d \<Rightarrow> d))
                    (promptInstruction @ promptBody [article1, article2])"
    by blast
  then have "1 < length [article1, article2] \<longrightarrow>
      sublist (lbracket @ numberToString (1 + 1) @ rbracket @
                  title ([article1, article2] ! 1) @ nl @
                  (case description ([article1, article2] ! 1) of None \<Rightarrow> [] | Some d \<Rightarrow> d))
                 (promptInstruction @ promptBody [article1, article2])"
    by (rule spec)
  then have "sublist (lbracket @ js ''2'' @ rbracket @ js ''Beta'' @ nl)
           (promptInstruction @ promptBody [article1, article2])"
    by (simp add: n article2_def)
  with r h1 h2 show ?thesis by blast
qed

text \<open>
  Claim C6. The delivered text is the header (the fixed curated header with the filter on,
  the header around the theme otherwise), a line feed, the summary, a line feed, the
  separator line, and the article list: one entry per article, in the order of the input,
  each with its ordinal marker, the localized date and the URL, joined by line feeds.
\<close>

theorem message_format:
  assumes "snd (fetchNews env theme 5 (Some aiFilter)) = Inr as" and "as \<noteq> []"
    and "snd (summarize env as) = Inr summary"
  shows "deliveries (fst (composeAndSend env tgt theme aiFilter)) =
           [case tgt of
              TextChannel ch \<Rightarrow>
                Send ch ((if aiFilter then headerCurated
                          else headerTopicPrefix @ theme @ headerTopicSuffix) @
                         nl @ summary @ nl @ separatorLine @ makeArticleList env as)
            | Message m \<Rightarrow>
                Reply m ((if aiFilter then headerCurated
                          else headerTopicPrefix @ theme @ headerTopicSuffix) @
                         nl @ summary @ nl @ separatorLine @ makeArticleList env as)] \<and>
         makeArticleList env as =
           join nl (map (\<lambda>i. lbracket @ numberToString (i + 1) @ rbracket @
                              toLocaleDateString env (publishedAt (as ! i)) @
                              dateUrlSeparator @ url (as ! i))
                        [0..<length as])"
proof -
  have "makeArticleList env as =
           join nl (map (\<lambda>i. lbracket @ numberToString (i + 1) @ rbracket @
                              toLocaleDateString env (publishedAt (as ! i)) @
                              dateUrlSeparator @ url (as ! i))
                        [0..<length as])"
    by (simp add: makeArticleList_def map_enumerate_upt toJSTDate_def)
  with deliveries_nonempty_fetch [OF assms, of tgt] show ?thesis by blast
qed

theorem message_format_witness:
  "snd (fetchNews (sampleEnv (Inr \<lparr>articles = Some [article1, article2]\<rparr>) (Inr (completion (Some (js '' ok '')))))
        (js ''rust'') 5 (Some False)) = Inr [article1, article2] \<and>
   [article1, article2] \<noteq> [] \<and>
   snd (summarize (sampleEnv (Inr \<lparr>articles = Some [article1, article2]\<rparr>) (Inr (completion (Some (js '' ok '')))))
        [article1, article2]) = Inr (js ''ok'') \<and>
   deliveries (fst (composeAndSend
        (sampleEnv (Inr \<lparr>articles = Some [article1, article2]\<rparr>) (Inr (completion (Some (js '' ok '')))))
        (Message userMessage) (js ''rust'') False)) =
     [Reply userMessage
        (headerTopicPrefix @ js ''rust'' @ headerTopicSuffix @ nl @ js ''ok'' @ nl @ separatorLine @
         lbracket @ js ''1'' @ rbracket @ js ''2024/05/01'' @ dateUrlSeparator @
           js ''https://a.example/1'' @ nl @
         lbracket @ js ''2'' @ rbracket @ js ''2024/05/01'' @ dateUrlSeparator @
           js ''https://b.example/2'')]"
proof -
  let ?E = "sampleEnv (Inr \<lparr>articles = Some [article1, article2]\<rparr>) (Inr (completion (Some (js '' ok ''))))"
  have h1: "snd (fetchNews ?E (js ''rust'') 5 (Some False)) = Inr [article1, article2]"
    by (simp add: fetchNews_eq sampleEnv_def Let_def)
  have h2: "[article1, article2] \<noteq> []" by simp
  have h3: "snd (summarize ?E [article1, article2]) = Inr (js ''ok'')"
    by (simp add: summarize_eq sampleEnv_def completion_def trim_def js_def isWhiteSpace_def)
  have n1: "numberToString (Suc 0) = js ''1''"
    by (subst numberToString.simps) (simp add: js_def)
  have n2: "numberToString (Suc (Suc 0)) = js ''2''"
    by (subst numberToString.simps) (simp add: js_def)
  have l: "[0..<Suc (Suc 0)] = [0, Suc 0]" by (simp add: upt_rec)
  note r = message_format [OF h1 h2 h3, of "Message userMessage", unfolded target.case]
  from r have "makeArticleList ?E [article1, article2] =
         lbracket @ js ''1'' @ rbracket @ js ''2024/05/01'' @ dateUrlSeparator @
           js ''https://a.example/1'' @ nl @
         lbracket @ js ''2'' @ rbracket @ js ''2024/05/01'' @ dateUrlSeparator @
           js ''https://b.example/2''"
    by (simp add: l n1 n2 sampleEnv_def article1_def article2_def)
  with r h1 h2 h3 show ?thesis by simp
qed

section \<open>The message trigger\<close>

text \<open>
  Claim C8. The handler does nothing at all (empty trace) for a message of a bot, a message
  outside the configured channel, or a message whose text is empty once its mentions are
  stripped. Otherwise it logs the theme and runs \<^verbatim>\<open>composeAndSend\<close> on the message with
  the stripped text and the filter off: the one search has the stripped text as query and
  no language, and the one delivery is a reply to the message.
\<close>

theorem onMessageCreate_behaviour:
  "(author_bot msg \<or> Some (channelId msg) \<noteq> TARGET_CHANNEL_ID env \<or>
      stripMentions (msg_content msg) = []
    \<longrightarrow> onMessageCreate env msg = ([], Inr ())) \<and>
   (\<not> author_bot msg \<and> Some (channelId msg) = TARGET_CHANNEL_ID env \<and>
      stripMentions (msg_content msg) \<noteq> []
    \<longrightarrow> fst (onMessageCreate env msg) =
          ConsoleLog (js ''Theme received: '' @ dquote @ stripMentions (msg_content msg) @
                      dquote @ js '' from '' @ author_tag msg) #
          fst (composeAndSend env (Message msg) (stripMentions (msg_content msg)) False) \<and>
        snd (onMessageCreate env msg) =
          snd (composeAndSend env (Message msg) (stripMentions (msg_content msg)) False) \<and>
        searches (fst (onMessageCreate env msg)) =
          [\<lparr>q = stripMentions (msg_content msg), sortBy = js ''publishedAt'', pageSize = 5,
            language = None\<rparr>] \<and>
        (\<exists>body. deliveries (fst (onMessageCreate env msg)) = [Reply msg body]))"
proof (intro conjI impI)
  assume "author_bot msg \<or> Some (channelId msg) \<noteq> TARGET_CHANNEL_ID env \<or>
      stripMentions (msg_content msg) = []"
  then show "onMessageCreate env msg = ([], Inr ())"
    by (auto simp: onMessageCreate_def stripMentions_trimmed return_io_def Let_def)
next
  assume a: "\<not> author_bot msg \<and> Some (channelId msg) = TARGET_CHANNEL_ID env \<and>
      stripMentions (msg_content msg) \<noteq> []"
  let ?theme = "stripMentions (msg_content msg)"
  let ?run = "composeAndSend env (Message msg) ?theme False"
  have eq: "onMessageCreate env msg =
      (ConsoleLog (js ''Theme received: '' @ dquote @ ?theme @ dquote @ js '' from '' @
                   author_tag msg) # fst ?run, snd ?run)"
    using a
    by (simp add: onMessageCreate_def stripMentions_trimmed Let_def bind_io_def log_def
        split: prod.splits)
  show "fst (onMessageCreate env msg) =
          ConsoleLog (js ''Theme received: '' @ dquote @ ?theme @ dquote @ js '' from '' @
                      author_tag msg) # fst ?run"
    by (simp add: eq)
  show "snd (onMessageCreate env msg) = snd ?run" by (simp add: eq)
  show "searches (fst (onMessageCreate env msg)) =
          [\<lparr>q = ?theme, sortBy = js ''publishedAt'', pageSize = 5, language = None\<rparr>]"
    by (simp add: eq searches_composeAndSend)
  from deliveries_reply [of env msg ?theme False] obtain body where
    "deliveries (fst ?run) = [Reply msg body]" by blast
  then have "deliveries (fst (onMessageCreate env msg)) = [Reply msg body]"
    by (simp add: eq deliveries_def)
  then show "\<exists>body. deliveries (fst (onMessageCreate env msg)) = [Reply msg body]" by blast
qed

theorem onMessageCreate_behaviour_witness:
  "author_bot botMessage \<and>
   onMessageCreate (sampleEnv (Inr \<lparr>articles = Some [article1]\<rparr>) (Inr (completion None)))
     botMessage = ([], Inr ()) \<and>
   \<not> author_bot userMessage \<and>
   Some (channelId userMessage) =
     TARGET_CHANNEL_ID (sampleEnv (Inr \<lparr>articles = Some [article1]\<rparr>) (Inr (completion None))) \<and>
   stripMentions (msg_content userMessage) = js ''quantum computing'' \<and>
   searches (fst (onMessageCreate
       (sampleEnv (Inr \<lparr>articles = Some [article1]\<rparr>) (Inr (completion None))) userMessage)) =
     [\<lparr>q = js ''quantum computing'', sortBy = js ''publishedAt'', pageSize = 5,
       language = None\<rparr>]"
proof -
  let ?E = "sampleEnv (Inr \<lparr>articles = Some [article1]\<rparr>) (Inr (completion None))"
  have b: "author_bot botMessage" by (simp add: botMessage_def)
  have u1: "\<not> author_bot userMessage" by (simp add: userMessage_def)
  have u2: "Some (channelId userMessage) = TARGET_CHANNEL_ID ?E"
    by (simp add: userMessage_def sampleEnv_def)
  have u3: "stripMentions (msg_content userMessage) = js ''quantum computing''" by code_simp
  have u4: "js ''quantum computing'' \<noteq> []" by (simp add: js_def)
  from onMessageCreate_behaviour [of botMessage ?E] b
  have r1: "onMessageCreate ?E botMessage = ([], Inr ())" by blast
  from onMessageCreate_behaviour [of userMessage ?E, unfolded u3] u1 u2 u4
  have r2: "searches (fst (onMessageCreate ?E userMessage)) =
     [\<lparr>q = js ''quantum computing'', sortBy = js ''publishedAt'', pageSize = 5,
       language = None\<rparr>]" by blast
  from b r1 u1 u2 u3 r2 show ?thesis by blast
qed

end
